theory Spec2Isabelle
  imports Main
begin

section \<open>The ONNX exporter's globals (torch/onnx/\_globals.py)\<close>

subsection \<open>Constants the module reads\<close>

text \<open>
  The module reads three names of \<^verbatim>\<open>torch.onnx._constants\<close>:
  \<^verbatim>\<open>onnx_default_opset\<close>, \<^verbatim>\<open>onnx_main_opset\<close> and \<^verbatim>\<open>onnx_stable_opsets\<close>.
  Their values are not fixed by \<^verbatim>\<open>_globals.py\<close>, so every operation below takes them
  as a parameter.
\<close>

record constants =
  onnx_default_opset :: int
  onnx_main_opset :: int
  onnx_stable_opsets :: "int list"

subsection \<open>Errors and messages\<close>

datatype error = ValueError string

text \<open>Python's \<^verbatim>\<open>str\<close> of an integer, as the f-strings of the sources print it.\<close>

definition digit_char :: "nat \<Rightarrow> char" where
  "digit_char d = ''0123456789'' ! d"

function str_nat :: "nat \<Rightarrow> string" where
  "str_nat n = (if n < 10 then [digit_char n] else str_nat (n div 10) @ [digit_char (n mod 10)])"
  by pat_completeness auto
termination
  by (relation "measure (\<lambda>n. n)") auto

declare str_nat.simps [simp del]

definition str_int :: "int \<Rightarrow> string" where
  "str_int i = (if i < 0 then CHR ''-'' # str_nat (nat (- i)) else str_nat (nat i))"

subsection \<open>The class \_InternalGlobals\<close>

text \<open>
  The four attributes \<^verbatim>\<open>__init__\<close> creates. \<^verbatim>\<open>_export_onnx_opset_version\<close> is the
  private attribute behind the property (an Isabelle name cannot start with an
  underscore, hence the prefix). \<^verbatim>\<open>OperatorExportTypes\<close> and \<^verbatim>\<open>TrainingMode\<close> are
  enumerations of \<^verbatim>\<open>torch.onnx\<close> imported for type checking only; they are the type
  parameters \<open>'o\<close> and \<open>'t\<close>.
\<close>

record ('o, 't) InternalGlobals =
  private_export_onnx_opset_version :: int
  operator_export_type :: "'o option"
  training_mode :: "'t option"
  onnx_shape_inference :: bool

text \<open>\<^verbatim>\<open>__init__\<close>: the version attribute is written directly, not through the setter.\<close>

definition init :: "constants \<Rightarrow> ('o, 't) InternalGlobals" where
  "init c =
     \<lparr> private_export_onnx_opset_version = onnx_default_opset c,
       operator_export_type = None,
       training_mode = None,
       onnx_shape_inference = False \<rparr>"

text \<open>The property's getter.\<close>

definition export_onnx_opset_version :: "('o, 't) InternalGlobals \<Rightarrow> int" where
  "export_onnx_opset_version self = private_export_onnx_opset_version self"

text \<open>
  A statement run on the object gives an outcome (\<open>Inl\<close> the exception raised, \<open>Inr ()\<close>
  normal completion) and the object as the statement leaves it.
\<close>

type_synonym ('o, 't) outcome = "(error + unit) \<times> ('o, 't) InternalGlobals"

text \<open>
  The property's setter: the list of supported versions is built from the main opset
  and the stable opsets, the membership test comes before the store.
\<close>

definition export_onnx_opset_version_setter ::
  "constants \<Rightarrow> ('o, 't) InternalGlobals \<Rightarrow> int \<Rightarrow> ('o, 't) outcome" where
  "export_onnx_opset_version_setter c self val =
     (let supported_versions = [onnx_main_opset c];
          supported_versions = supported_versions @ onnx_stable_opsets c
      in if val \<notin> set supported_versions
         then (Inl (ValueError (''Unsupported ONNX opset version: '' @ str_int val)), self)
         else (Inr (), self\<lparr>private_export_onnx_opset_version := val\<rparr>))"

text \<open>
  Attribute assignment on an instance, \<^verbatim>\<open>GLOBALS.name = value\<close>. The class defines a
  property for \<^verbatim>\<open>export_onnx_opset_version\<close> only; the other three names are plain
  instance attributes, so Python stores the value and raises nothing.
\<close>

datatype ('o, 't) assignment =
    Assign_export_onnx_opset_version int
  | Assign_operator_export_type "'o option"
  | Assign_training_mode "'t option"
  | Assign_onnx_shape_inference bool

fun assign :: "constants \<Rightarrow> ('o, 't) InternalGlobals \<Rightarrow> ('o, 't) assignment \<Rightarrow> ('o, 't) outcome" where
  "assign c self (Assign_export_onnx_opset_version v) = export_onnx_opset_version_setter c self v"
| "assign c self (Assign_operator_export_type v) = (Inr (), self\<lparr>operator_export_type := v\<rparr>)"
| "assign c self (Assign_training_mode v) = (Inr (), self\<lparr>training_mode := v\<rparr>)"
| "assign c self (Assign_onnx_shape_inference v) = (Inr (), self\<lparr>onnx_shape_inference := v\<rparr>)"

text \<open>
  A caller's sequence of assignments. An assignment that raises leaves the object as the
  setter left it, and the caller may go on with the next one (having caught the error),
  so a run continues from the state after each assignment, whatever its outcome.
\<close>

fun assign_all :: "constants \<Rightarrow> ('o, 't) InternalGlobals \<Rightarrow> ('o, 't) assignment list \<Rightarrow> ('o, 't) InternalGlobals" where
  "assign_all c self [] = self"
| "assign_all c self (a # as) = assign_all c (snd (assign c self a)) as"

text \<open>The module-level object \<^verbatim>\<open>GLOBALS = _InternalGlobals()\<close>.\<close>

definition GLOBALS :: "constants \<Rightarrow> ('o, 't) InternalGlobals" where
  "GLOBALS c = init c"

text \<open>The value last assigned to each unguarded attribute in a sequence, if any.\<close>

fun last_operator_export_type :: "('o, 't) assignment list \<Rightarrow> 'o option option" where
  "last_operator_export_type [] = None"
| "last_operator_export_type (Assign_operator_export_type v # as) =
     (case last_operator_export_type as of None \<Rightarrow> Some v | Some w \<Rightarrow> Some w)"
| "last_operator_export_type (_ # as) = last_operator_export_type as"

fun last_training_mode :: "('o, 't) assignment list \<Rightarrow> 't option option" where
  "last_training_mode [] = None"
| "last_training_mode (Assign_training_mode v # as) =
     (case last_training_mode as of None \<Rightarrow> Some v | Some w \<Rightarrow> Some w)"
| "last_training_mode (_ # as) = last_training_mode as"

fun last_onnx_shape_inference :: "('o, 't) assignment list \<Rightarrow> bool option" where
  "last_onnx_shape_inference [] = None"
| "last_onnx_shape_inference (Assign_onnx_shape_inference v # as) =
     (case last_onnx_shape_inference as of None \<Rightarrow> Some v | Some w \<Rightarrow> Some w)"
| "last_onnx_shape_inference (_ # as) = last_onnx_shape_inference as"

subsection \<open>The invariant and sample values\<close>


text \<open>
  Sample constants, on which the theorems below are evaluated. They are an instance
  chosen here, not the values of \<^verbatim>\<open>torch.onnx._constants\<close>.
\<close>

definition sample_constants :: constants where
  "sample_constants =
     \<lparr> onnx_default_opset = 13, onnx_main_opset = 16,
       onnx_stable_opsets = [7, 8, 9, 10, 11, 12, 13, 14, 15] \<rparr>"

definition sample_globals :: "(unit, unit) InternalGlobals" where
  "sample_globals = GLOBALS sample_constants"

section \<open>Device placement by the sharded-parameter wrapper (test/distributed/fsdp/test\_fsdp\_misc.py)\<close>

subsection \<open>Devices, modules and the worker process\<close>

text \<open>
  The device a tensor lives on: \<^verbatim>\<open>torch.device("cpu")\<close> or \<^verbatim>\<open>torch.device("cuda", i)\<close>.
\<close>

datatype device = CPU | CUDA nat

text \<open>
  The \<^verbatim>\<open>device_id\<close> argument as the tests pass it: a bare index
  (\<^verbatim>\<open>torch.cuda.current_device()\<close>, \<^verbatim>\<open>0\<close>), or a device handle
  \<^verbatim>\<open>torch.device("cuda", i)\<close>, or the handle \<^verbatim>\<open>torch.device("cuda")\<close> that has no index.
\<close>

datatype device_id = Index nat | Handle "nat option"

text \<open>
  A module is seen through \<^verbatim>\<open>module.parameters()\<close> only: the list of the devices of
  its parameters. \<^verbatim>\<open>nn.ReLU()\<close> has none, on host memory or after \<^verbatim>\<open>.cuda()\<close>.
\<close>

type_synonym nn_module = "device list"

text \<open>
  A worker of the test: \<^verbatim>\<open>self.rank\<close> and \<^verbatim>\<open>torch.cuda.current_device()\<close>.
\<close>

record process =
  rank :: nat
  current_device :: nat

text \<open>\<^verbatim>\<open>torch.cuda.set_device\<close>, \<^verbatim>\<open>Module.cuda()\<close> on a plain module.\<close>

definition set_device :: "nat \<Rightarrow> process \<Rightarrow> process" where
  "set_device i p = p\<lparr>current_device := i\<rparr>"

definition module_cuda :: "process \<Rightarrow> nn_module \<Rightarrow> nn_module" where
  "module_cuda p m = map (\<lambda>_. CUDA (current_device p)) m"

subsection \<open>The wrapper's constructor\<close>

text \<open>
  What the tests catch. \<open>Module_on_other_device r d e\<close> is the \<^verbatim>\<open>RuntimeError\<close> matched
  by \<^verbatim>\<open>"on rank {r}.*{d}, but is on {e}"\<close>; \<open>Single_device_only ds\<close> is the
  \<^verbatim>\<open>RuntimeError\<close> matched by \<^verbatim>\<open>"FSDP only supports single device modules"\<close>;
  \<open>Inconsistent_compute_device c d\<close> is the \<^verbatim>\<open>AssertionError\<close> matched by
  \<^verbatim>\<open>"Inconsistent.*{c} vs {d}"\<close>.
\<close>

datatype fsdp_error =
    Module_on_other_device nat device device
  | Single_device_only "device list"
  | Inconsistent_compute_device device device

datatype exception_class = RuntimeError_class | AssertionError_class

fun class_of :: "fsdp_error \<Rightarrow> exception_class" where
  "class_of (Module_on_other_device _ _ _) = RuntimeError_class"
| "class_of (Single_device_only _) = RuntimeError_class"
| "class_of (Inconsistent_compute_device _ _) = AssertionError_class"

text \<open>
  The two \<^verbatim>\<open>UserWarning\<close>s the tests expect, matched by \<^verbatim>\<open>"does not have explicit index"\<close>
  and by \<^verbatim>\<open>"Module is input on CPU"\<close>.
\<close>

datatype warning = No_explicit_index | Module_input_on_CPU

text \<open>
  What a test observes of a constructed wrapper: the devices of \<^verbatim>\<open>fsdp.parameters()\<close>,
  the device the wrapper computes on, the devices the module was moved to during
  construction (in order), and the warnings issued.
\<close>

record fsdp =
  fsdp_parameters :: "device list"
  compute_device :: device
  movements :: "device list"
  warnings :: "warning list"

text \<open>The device a specifier names; a handle without index stands for the current device.\<close>

fun device_of :: "process \<Rightarrow> device_id \<Rightarrow> device" where
  "device_of p (Index i) = CUDA i"
| "device_of p (Handle (Some i)) = CUDA i"
| "device_of p (Handle None) = CUDA (current_device p)"

fun index_warning :: "device_id \<Rightarrow> warning list" where
  "index_warning (Handle None) = [No_explicit_index]"
| "index_warning _ = []"

text \<open>
  Modelled from the spec: the constructor of the sharded-parameter wrapper
  (\<^verbatim>\<open>torch.distributed.fsdp.FullyShardedDataParallel\<close>) is not among the sources; only
  its test is. The model covers device placement alone, following section 4 of the
  specification and the docstrings and comments of the test:
  \<^item> parameters on more than one device: the construction fails;
  \<^item> no parameters: nothing is moved, and the compute device is the current device
    (\<open>compute_device is computed as torch.cuda.current_device when there are no params\<close>),
    which a given \<^verbatim>\<open>device_id\<close> must agree with;
  \<^item> a \<^verbatim>\<open>device_id\<close> and parameters on host memory: the module is moved to that device;
  \<^item> a \<^verbatim>\<open>device_id\<close> and parameters on another accelerator device: the construction fails;
  \<^item> no \<^verbatim>\<open>device_id\<close> and parameters on host memory: the module is moved to the current
    accelerator device for sharding and back to host memory, with a warning.
\<close>

definition FSDP :: "process \<Rightarrow> nn_module \<Rightarrow> device_id option \<Rightarrow> fsdp_error + fsdp" where
  "FSDP p m device_id =
     (let requested = map_option (device_of p) device_id;
          ws = (case device_id of None \<Rightarrow> [] | Some d \<Rightarrow> index_warning d);
          current = CUDA (current_device p);
          devices = remdups m
      in if 1 < length devices then Inl (Single_device_only devices)
         else case devices of
           [] \<Rightarrow>
             (case requested of
                None \<Rightarrow>
                  Inr \<lparr>fsdp_parameters = m, compute_device = current, movements = [], warnings = ws\<rparr>
              | Some d \<Rightarrow>
                  if current = d
                  then Inr \<lparr>fsdp_parameters = m, compute_device = current, movements = [], warnings = ws\<rparr>
                  else Inl (Inconsistent_compute_device current d))
         | dev # _ \<Rightarrow>
             (case requested of
                Some d \<Rightarrow>
                  if dev = CPU
                  then Inr \<lparr>fsdp_parameters = map (\<lambda>_. d) m, compute_device = d,
                            movements = [d], warnings = ws\<rparr>
                  else if dev \<noteq> d then Inl (Module_on_other_device (rank p) d dev)
                  else Inr \<lparr>fsdp_parameters = m, compute_device = d, movements = [], warnings = ws\<rparr>
              | None \<Rightarrow>
                  if dev = CPU
                  then Inr \<lparr>fsdp_parameters = m, compute_device = current,
                            movements = [current, CPU], warnings = ws @ [Module_input_on_CPU]\<rparr>
                  else Inr \<lparr>fsdp_parameters = m, compute_device = dev, movements = [], warnings = ws\<rparr>))"

text \<open>
  Modelled from the spec: \<^verbatim>\<open>fsdp.cuda()\<close> belongs to the absent wrapper too. As
  \<^verbatim>\<open>Module.cuda()\<close> does, it moves every parameter to the current accelerator device.
\<close>

definition fsdp_cuda :: "process \<Rightarrow> fsdp \<Rightarrow> fsdp" where
  "fsdp_cuda p f = f\<lparr>fsdp_parameters := module_cuda p (fsdp_parameters f)\<rparr>"

subsection \<open>The tests\<close>

text \<open>
  Modelled from the spec: the helper \<^verbatim>\<open>NestedWrappedModule\<close> of
  \<^verbatim>\<open>torch.testing._internal.common_fsdp\<close> is absent as well. As the tests call it
  (\<^verbatim>\<open>wrap_fsdp=True, wrap_everything=True\<close>), it builds a module of \<open>n\<close> parameters on
  host memory, moves it to the current accelerator device before wrapping when the mode
  is \<^verbatim>\<open>CUDA_BEFORE\<close> (\<open>would move module to current cuda device before wrapping with FSDP\<close>),
  and wraps it with the \<^verbatim>\<open>device_id\<close> given; an error of the wrapper's constructor
  leaves the helper's constructor as it is.
\<close>

datatype FSDPInitMode = CUDA_BEFORE | CUDA_NEVER

definition NestedWrappedModule ::
  "process \<Rightarrow> nat \<Rightarrow> FSDPInitMode \<Rightarrow> device_id option \<Rightarrow> fsdp_error + fsdp" where
  "NestedWrappedModule p n fsdp_init_mode device_id =
     (let m = replicate n CPU;
          m = (if fsdp_init_mode = CUDA_BEFORE then module_cuda p m else m)
      in FSDP p m device_id)"

text \<open>
  A test is the conjunction of its assertions, in order; an exception no context manager
  expects fails it. \<^verbatim>\<open>{p.device for p in fsdp.parameters()}\<close> is the list of devices
  without duplicates. \<^verbatim>\<open>found_dev == dev_id\<close> compares a parameter's device with a device
  handle: a bare index is no device, and a handle without index equals no parameter's
  device.
\<close>

fun device_eq :: "device \<Rightarrow> device_id \<Rightarrow> bool" where
  "device_eq found_dev (Handle (Some i)) = (found_dev = CUDA i)"
| "device_eq found_dev (Handle None) = False"
| "device_eq found_dev (Index i) = False"

fun isinstance_device :: "device_id \<Rightarrow> bool" where
  "isinstance_device (Handle _) = True"
| "isinstance_device (Index _) = False"

fun to_handle :: "device_id \<Rightarrow> device_id" where
  "to_handle (Index i) = Handle (Some i)"
| "to_handle h = h"

definition check_device_matches :: "bool \<Rightarrow> fsdp \<Rightarrow> device_id \<Rightarrow> bool" where
  "check_device_matches use_index fsdp dev_id =
     (let devices = remdups (fsdp_parameters fsdp)
      in case devices of
           [found_dev] \<Rightarrow>
             (let dev_id = (if use_index \<and> \<not> isinstance_device dev_id then to_handle dev_id else dev_id)
              in device_eq found_dev dev_id)
         | _ \<Rightarrow> False)"

definition wrap_and_check ::
  "process \<Rightarrow> nat \<Rightarrow> bool \<Rightarrow> FSDPInitMode \<Rightarrow> device_id \<Rightarrow> bool" where
  "wrap_and_check p n use_index fsdp_init_mode dev_id =
     (case NestedWrappedModule p n fsdp_init_mode (Some dev_id) of
        Inl _ \<Rightarrow> False
      | Inr md \<Rightarrow>
          (case FSDP p (fsdp_parameters md) (Some dev_id) of
             Inl _ \<Rightarrow> False
           | Inr fsdp \<Rightarrow> check_device_matches use_index fsdp dev_id))"

definition test_fsdp_device_id :: "nat \<Rightarrow> process \<Rightarrow> bool \<Rightarrow> bool" where
  "test_fsdp_device_id n p use_index =
     (let dev_id = (if use_index then Index (current_device p)
                    else Handle (Some (current_device p)))
      in wrap_and_check p n use_index CUDA_NEVER dev_id
       \<and> wrap_and_check p n use_index CUDA_BEFORE dev_id
       \<and> (case NestedWrappedModule p n CUDA_BEFORE (Some (Handle None)) of
            Inl _ \<Rightarrow> False
          | Inr md \<Rightarrow>
              (case FSDP p (fsdp_parameters md) (Some (Handle None)) of
                 Inl _ \<Rightarrow> False
               | Inr fsdp \<Rightarrow>
                   No_explicit_index \<in> set (warnings md @ warnings fsdp)
                 \<and> check_device_matches use_index fsdp (Handle (Some (current_device p))))))"

definition test_module_device_mismatches_device_id :: "nat \<Rightarrow> process \<Rightarrow> bool" where
  "test_module_device_mismatches_device_id n p =
     (let r = NestedWrappedModule p n CUDA_BEFORE (Some (Index 0))
      in if rank p \<noteq> 0
         then r = Inl (Module_on_other_device (rank p) (CUDA 0) (CUDA (rank p)))
         else \<not> isl r)"

text \<open>
  \<^verbatim>\<open>MyModule\<close>: \<^verbatim>\<open>a = nn.Linear(1, 1).cuda()\<close> and \<^verbatim>\<open>b = nn.Linear(1, 1)\<close>, each with a
  weight and a bias.
\<close>

definition MyModule :: "process \<Rightarrow> nn_module" where
  "MyModule p = module_cuda p [CPU, CPU] @ [CPU, CPU]"

definition test_multi_device_not_supported :: "process \<Rightarrow> bool" where
  "test_multi_device_not_supported p =
     (case FSDP p (MyModule p) None of
        Inl (Single_device_only _) \<Rightarrow> True
      | _ \<Rightarrow> False)"

definition test_no_params :: "process \<Rightarrow> bool" where
  "test_no_params p =
     (let no_params = [] :: nn_module
      in \<not> isl (FSDP p no_params None)
       \<and> \<not> isl (FSDP p (module_cuda p no_params) None)
       \<and> \<not> isl (FSDP p no_params (Some (Index (current_device p))))
       \<and> (let r = FSDP p (module_cuda p no_params) (Some (Index 0))
          in if rank p \<noteq> 0
             then r = Inl (Inconsistent_compute_device (CUDA (rank p)) (CUDA 0))
             else \<not> isl r))"

text \<open>
  The last statement of \<^verbatim>\<open>test_fsdp_cpu_init_stays_on_cpu\<close>,
  \<^verbatim>\<open>fsdp(inp[0]).sum().backward()\<close>, runs the forward and backward pass of the wrapper on
  an input from host memory. Neither the sources nor the specification say when that
  pass raises, so the test takes it as a parameter: \<open>forward_backward f d\<close> holds when the
  pass of the wrapper \<open>f\<close> on an input on device \<open>d\<close> raises nothing.
\<close>

definition test_fsdp_cpu_init_stays_on_cpu ::
  "nat \<Rightarrow> (fsdp \<Rightarrow> device \<Rightarrow> bool) \<Rightarrow> process \<Rightarrow> bool" where
  "test_fsdp_cpu_init_stays_on_cpu n forward_backward p0 =
     (let p = set_device (rank p0) p0
      in case NestedWrappedModule p n CUDA_NEVER None of
           Inl _ \<Rightarrow> False
         | Inr md \<Rightarrow>
             (case FSDP p (fsdp_parameters md) None of
                Inl _ \<Rightarrow> False
              | Inr fsdp \<Rightarrow>
                  Module_input_on_CPU \<in> set (warnings md @ warnings fsdp)
                \<and> (let devices = remdups (fsdp_parameters fsdp)
                   in length devices = 1 \<and> devices = [CPU])
                \<and> forward_backward (fsdp_cuda p fsdp) CPU))"

text \<open>A sample worker: rank 1 of the two, on its own accelerator device.\<close>

definition worker1 :: process where
  "worker1 = \<lparr>rank = 1, current_device = 1\<rparr>"

section \<open>Properties of the globals\<close>

subsection \<open>Evaluating the message\<close>

lemma str_int_9999: "str_int 9999 = ''9999''"
  by (simp add: str_int_def str_nat.simps digit_char_def)

lemma sample_setter_rejects_9999:
  "export_onnx_opset_version_setter sample_constants sample_globals 9999
     = (Inl (ValueError ''Unsupported ONNX opset version: 9999''), sample_globals)"
  by (simp add: export_onnx_opset_version_setter_def sample_constants_def str_int_9999)

subsection \<open>The guarded version field\<close>

text \<open>
  C1. For every value \<open>v\<close> of the supported set (the main opset version together with the
  stable opset versions), assigning \<open>v\<close> to \<^verbatim>\<open>export_onnx_opset_version\<close> raises no error,
  and reading \<^verbatim>\<open>export_onnx_opset_version\<close> afterwards returns \<open>v\<close>.
\<close>

theorem setter_supported_reads_back:
  assumes "v = onnx_main_opset c \<or> v \<in> set (onnx_stable_opsets c)"
  shows "fst (export_onnx_opset_version_setter c self v) = Inr ()
       \<and> export_onnx_opset_version (snd (export_onnx_opset_version_setter c self v)) = v"
  using assms
  by (auto simp: export_onnx_opset_version_setter_def export_onnx_opset_version_def)

theorem setter_supported_reads_back_witness:
  "((9::int) = onnx_main_opset sample_constants \<or> 9 \<in> set (onnx_stable_opsets sample_constants))
   \<and> fst (export_onnx_opset_version_setter sample_constants sample_globals 9) = Inr ()
   \<and> export_onnx_opset_version
        (snd (export_onnx_opset_version_setter sample_constants sample_globals 9)) = 9"
proof -
  have h: "(9::int) = onnx_main_opset sample_constants \<or> 9 \<in> set (onnx_stable_opsets sample_constants)"
    by (simp add: sample_constants_def)
  from h setter_supported_reads_back [OF h, of sample_globals] show ?thesis by blast
qed

text \<open>
  C2. For every value \<open>v\<close> outside the supported set, assigning \<open>v\<close> to
  \<^verbatim>\<open>export_onnx_opset_version\<close> raises \<^verbatim>\<open>ValueError\<close> (with the message of the source), and
  the object after the failed assignment is the object before it; in particular the
  stored version is the one stored before.
\<close>

theorem setter_unsupported_raises:
  assumes "v \<noteq> onnx_main_opset c" and "v \<notin> set (onnx_stable_opsets c)"
  shows "fst (export_onnx_opset_version_setter c self v)
           = Inl (ValueError (''Unsupported ONNX opset version: '' @ str_int v))
       \<and> snd (export_onnx_opset_version_setter c self v) = self
       \<and> export_onnx_opset_version (snd (export_onnx_opset_version_setter c self v))
           = export_onnx_opset_version self"
  using assms by (simp add: export_onnx_opset_version_setter_def)

theorem setter_unsupported_raises_witness:
  "(9999::int) \<noteq> onnx_main_opset sample_constants
   \<and> 9999 \<notin> set (onnx_stable_opsets sample_constants)
   \<and> fst (export_onnx_opset_version_setter sample_constants sample_globals 9999)
       = Inl (ValueError ''Unsupported ONNX opset version: 9999'')
   \<and> snd (export_onnx_opset_version_setter sample_constants sample_globals 9999) = sample_globals
   \<and> export_onnx_opset_version
        (snd (export_onnx_opset_version_setter sample_constants sample_globals 9999)) = 13"
proof -
  have h1: "(9999::int) \<noteq> onnx_main_opset sample_constants"
    and h2: "(9999::int) \<notin> set (onnx_stable_opsets sample_constants)"
    by (simp_all add: sample_constants_def)
  have r: "export_onnx_opset_version sample_globals = 13"
    by (simp add: export_onnx_opset_version_def sample_globals_def GLOBALS_def init_def
        sample_constants_def)
  from setter_unsupported_raises [OF h1 h2, of sample_globals] h1 h2 r show ?thesis
    by (simp add: str_int_9999)
qed

subsection \<open>The invariant\<close>








subsection \<open>The unguarded fields\<close>

lemma assign_all_operator_export_type:
  "operator_export_type (assign_all c self as)
     = (case last_operator_export_type as of None \<Rightarrow> operator_export_type self | Some v \<Rightarrow> v)"
proof (induction as arbitrary: self)
  case Nil
  then show ?case by simp
next
  case (Cons a as)
  then show ?case
    by (cases a) (simp_all add: export_onnx_opset_version_setter_def split: option.splits)
qed

lemma assign_all_training_mode:
  "training_mode (assign_all c self as)
     = (case last_training_mode as of None \<Rightarrow> training_mode self | Some v \<Rightarrow> v)"
proof (induction as arbitrary: self)
  case Nil
  then show ?case by simp
next
  case (Cons a as)
  then show ?case
    by (cases a) (simp_all add: export_onnx_opset_version_setter_def split: option.splits)
qed

lemma assign_all_onnx_shape_inference:
  "onnx_shape_inference (assign_all c self as)
     = (case last_onnx_shape_inference as of None \<Rightarrow> onnx_shape_inference self | Some v \<Rightarrow> v)"
proof (induction as arbitrary: self)
  case Nil
  then show ?case by simp
next
  case (Cons a as)
  then show ?case
    by (cases a) (simp_all add: export_onnx_opset_version_setter_def split: option.splits)
qed

text \<open>
  C4. Assigning any value to \<^verbatim>\<open>operator_export_type\<close>, \<^verbatim>\<open>training_mode\<close> or
  \<^verbatim>\<open>onnx_shape_inference\<close> raises nothing, whatever the value and the state, and the field
  then reads as that value; after any sequence of assignments each of the three fields
  reads as the value last written to it (as before the sequence when it wrote none).
\<close>

theorem unguarded_fields_read_back:
  "fst (assign c self (Assign_operator_export_type x)) = Inr ()
   \<and> operator_export_type (snd (assign c self (Assign_operator_export_type x))) = x
   \<and> fst (assign c self (Assign_training_mode y)) = Inr ()
   \<and> training_mode (snd (assign c self (Assign_training_mode y))) = y
   \<and> fst (assign c self (Assign_onnx_shape_inference z)) = Inr ()
   \<and> onnx_shape_inference (snd (assign c self (Assign_onnx_shape_inference z))) = z
   \<and> operator_export_type (assign_all c self as)
       = (case last_operator_export_type as of None \<Rightarrow> operator_export_type self | Some v \<Rightarrow> v)
   \<and> training_mode (assign_all c self as)
       = (case last_training_mode as of None \<Rightarrow> training_mode self | Some v \<Rightarrow> v)
   \<and> onnx_shape_inference (assign_all c self as)
       = (case last_onnx_shape_inference as of None \<Rightarrow> onnx_shape_inference self | Some v \<Rightarrow> v)"
  by (simp add: assign_all_operator_export_type assign_all_training_mode
      assign_all_onnx_shape_inference)

subsection \<open>Frame\<close>

text \<open>
  C10. An assignment to \<^verbatim>\<open>export_onnx_opset_version\<close>, completed or refused, leaves
  \<^verbatim>\<open>operator_export_type\<close>, \<^verbatim>\<open>training_mode\<close> and \<^verbatim>\<open>onnx_shape_inference\<close> as they were; an
  assignment to any of these three leaves the stored version selector as it was.
\<close>

theorem assignments_frame:
  "operator_export_type (snd (export_onnx_opset_version_setter c self v)) = operator_export_type self
   \<and> training_mode (snd (export_onnx_opset_version_setter c self v)) = training_mode self
   \<and> onnx_shape_inference (snd (export_onnx_opset_version_setter c self v)) = onnx_shape_inference self
   \<and> private_export_onnx_opset_version (snd (assign c self (Assign_operator_export_type x)))
       = private_export_onnx_opset_version self
   \<and> private_export_onnx_opset_version (snd (assign c self (Assign_training_mode y)))
       = private_export_onnx_opset_version self
   \<and> private_export_onnx_opset_version (snd (assign c self (Assign_onnx_shape_inference z)))
       = private_export_onnx_opset_version self"
  by (simp add: export_onnx_opset_version_setter_def)

section \<open>Properties of the wrapper's device placement\<close>

subsection \<open>Lists of devices without duplicates\<close>

lemma remdups_all_same:
  "list_all (\<lambda>d. d = x) m \<Longrightarrow> remdups m = (if m = [] then [] else [x])"
proof (induction m)
  case Nil
  then show ?case by simp
next
  case (Cons a m)
  then have a: "a = x" and rest: "list_all (\<lambda>d. d = x) m" by simp_all
  show ?case
  proof (cases "m = []")
    case True
    with a show ?thesis by simp
  next
    case False
    then obtain b bs where "m = b # bs" by (cases m) auto
    with rest have "x \<in> set m" by simp
    with Cons.IH [OF rest] False a show ?thesis by simp
  qed
qed

lemma map_const_all_same: "list_all (\<lambda>d. d = x) (map (\<lambda>_. x) m)"
  by (simp add: list_all_iff)

lemma remdups_map_const: "remdups (map (\<lambda>_. x) m) = (if m = [] then [] else [x])"
  using remdups_all_same [OF map_const_all_same, of x m] by simp

lemma remdups_replicate_same: "remdups (replicate n x) = (if n = 0 then [] else [x])"
  using remdups_all_same [of x "replicate n x"] by (simp add: list_all_iff)

lemma remdups_at_most_one:
  assumes "\<not> 1 < length (remdups m)"
  shows "m = [] \<or> (\<exists>d. remdups m = [d] \<and> list_all (\<lambda>e. e = d) m)"
proof (cases "remdups m")
  case Nil
  then show ?thesis by simp
next
  case (Cons d ds)
  with assms have ds: "ds = []" by simp
  with Cons have "set m = {d}" by (metis empty_set list.simps(15) set_remdups)
  then have "list_all (\<lambda>e. e = d) m" by (auto simp: list_all_iff)
  with Cons ds show ?thesis by simp
qed

subsection \<open>The tests pass on the model\<close>

text \<open>
  The first four tests of the file, run on a worker against the modelled constructor,
  pass: for both values of \<^verbatim>\<open>use_index\<close>, for every worker whose current device is its
  rank (as the messages the tests expect presuppose), and for every positive number of
  parameters of the helper module.
\<close>

lemma test_fsdp_device_id_passes:
  assumes "0 < n"
  shows "test_fsdp_device_id n p use_index"
  using assms
  by (auto simp: test_fsdp_device_id_def wrap_and_check_def NestedWrappedModule_def FSDP_def
      Let_def module_cuda_def check_device_matches_def remdups_replicate_same remdups_map_const
      map_replicate_const)

lemma test_module_device_mismatches_device_id_passes:
  assumes "0 < n" and "current_device p = rank p"
  shows "test_module_device_mismatches_device_id n p"
  using assms
  by (auto simp: test_module_device_mismatches_device_id_def NestedWrappedModule_def FSDP_def
      Let_def module_cuda_def remdups_replicate_same remdups_map_const map_replicate_const)

lemma test_multi_device_not_supported_passes: "test_multi_device_not_supported p"
  by (simp add: test_multi_device_not_supported_def MyModule_def module_cuda_def FSDP_def Let_def)

lemma test_no_params_passes:
  assumes "current_device p = rank p"
  shows "test_no_params p"
  using assms by (auto simp: test_no_params_def module_cuda_def FSDP_def Let_def)

text \<open>
  In \<^verbatim>\<open>test_fsdp_cpu_init_stays_on_cpu\<close> every assertion before the forward and backward
  pass holds; the test passes exactly when that pass, on the wrapper moved to the worker's
  accelerator device, raises nothing.
\<close>

lemma test_fsdp_cpu_init_stays_on_cpu_up_to_pass:
  assumes "0 < n"
  shows "test_fsdp_cpu_init_stays_on_cpu n forward_backward p
           = forward_backward
               \<lparr>fsdp_parameters = replicate n (CUDA (rank p)), compute_device = CUDA (rank p),
                 movements = [CUDA (rank p), CPU], warnings = [Module_input_on_CPU]\<rparr> CPU"
  using assms
  by (simp add: test_fsdp_cpu_init_stays_on_cpu_def NestedWrappedModule_def FSDP_def Let_def
      set_device_def fsdp_cuda_def module_cuda_def remdups_replicate_same map_replicate_const)

subsection \<open>An explicit device specifier\<close>

text \<open>
  C5. When a module is wrapped with an explicit \<^verbatim>\<open>device_id\<close> (a bare index \<open>Index i\<close> or a
  device handle \<open>Handle (Some i)\<close>, both naming \<open>CUDA i\<close>) and the construction returns a
  wrapper, the wrapper has the parameters of the module, every one of them is on the device
  the specifier names, and the devices of the parameters are that single device (the
  assertion of \<^verbatim>\<open>_check_device_matches\<close>) whenever there is a parameter.
\<close>

theorem fsdp_device_id_placement:
  assumes "FSDP p m (Some device_id) = Inr f"
  shows "length (fsdp_parameters f) = length m
       \<and> list_all (\<lambda>d. d = device_of p device_id) (fsdp_parameters f)
       \<and> remdups (fsdp_parameters f) = (if m = [] then [] else [device_of p device_id])"
proof -
  from assms have "\<not> 1 < length (remdups m)"
    by (auto simp: FSDP_def Let_def split: if_splits)
  then have "m = [] \<or> (\<exists>d. remdups m = [d] \<and> list_all (\<lambda>e. e = d) m)"
    by (rule remdups_at_most_one)
  then show ?thesis
  proof
    assume "m = []"
    with assms show ?thesis
      by (auto simp: FSDP_def Let_def split: if_splits)
  next
    assume "\<exists>d. remdups m = [d] \<and> list_all (\<lambda>e. e = d) m"
    then obtain d where d: "remdups m = [d]" "list_all (\<lambda>e. e = d) m" by blast
    then have ne: "m \<noteq> []" by auto
    show ?thesis
    proof (cases "d = CPU")
      case True
      with assms d have "fsdp_parameters f = map (\<lambda>_. device_of p device_id) m"
        by (auto simp: FSDP_def Let_def split: if_splits)
      with ne show ?thesis
        by (simp add: map_const_all_same remdups_map_const)
    next
      case False
      with assms d have "fsdp_parameters f = m \<and> d = device_of p device_id"
        by (auto simp: FSDP_def Let_def split: if_splits)
      with d ne show ?thesis by simp
    qed
  qed
qed

theorem fsdp_device_id_placement_witness:
  "FSDP worker1 [CPU, CPU] (Some (Index 0))
     = Inr \<lparr>fsdp_parameters = [CUDA 0, CUDA 0], compute_device = CUDA 0,
            movements = [CUDA 0], warnings = []\<rparr>
   \<and> device_of worker1 (Index 0) = CUDA 0
   \<and> length [CUDA 0, CUDA 0] = length [CPU, CPU]
   \<and> list_all (\<lambda>d. d = CUDA 0) [CUDA 0, CUDA 0]
   \<and> remdups [CUDA 0, CUDA 0] = [CUDA 0]"
proof -
  have h: "FSDP worker1 [CPU, CPU] (Some (Index 0))
     = Inr \<lparr>fsdp_parameters = [CUDA 0, CUDA 0], compute_device = CUDA 0,
            movements = [CUDA 0], warnings = []\<rparr>"
    by (simp add: FSDP_def worker1_def)
  from h fsdp_device_id_placement [OF h] show ?thesis by simp
qed

subsection \<open>Modules the constructor refuses\<close>

text \<open>
  C6. When the parameters of a module are on an accelerator device \<open>CUDA i\<close> and the
  \<^verbatim>\<open>device_id\<close> given names another device, the constructor raises the \<^verbatim>\<open>RuntimeError\<close>
  that names the worker's rank, the device requested and the device the module is on;
  that error is the result of the constructor.
\<close>

theorem fsdp_module_on_other_device:
  assumes "m \<noteq> []" and "list_all (\<lambda>d. d = CUDA i) m" and "device_of p device_id \<noteq> CUDA i"
  shows "FSDP p m (Some device_id)
           = Inl (Module_on_other_device (rank p) (device_of p device_id) (CUDA i))
       \<and> class_of (Module_on_other_device (rank p) (device_of p device_id) (CUDA i))
           = RuntimeError_class"
  using assms remdups_all_same [of "CUDA i" m]
  by (auto simp: FSDP_def Let_def)

theorem fsdp_module_on_other_device_witness:
  "[CUDA 1, CUDA 1] \<noteq> [] \<and> list_all (\<lambda>d. d = CUDA 1) [CUDA 1, CUDA 1]
   \<and> device_of worker1 (Index 0) \<noteq> CUDA 1
   \<and> FSDP worker1 [CUDA 1, CUDA 1] (Some (Index 0))
       = Inl (Module_on_other_device 1 (CUDA 0) (CUDA 1))"
proof -
  have h1: "[CUDA 1, CUDA 1] \<noteq> []"
    and h2: "list_all (\<lambda>d. d = CUDA 1) [CUDA 1, CUDA 1]"
    and h3: "device_of worker1 (Index 0) \<noteq> CUDA 1"
    by simp_all
  from fsdp_module_on_other_device [OF h1 h2 h3] h1 h2 h3 show ?thesis
    by (simp add: worker1_def)
qed

text \<open>
  C7. When the parameters of a module are on more than one device (two parameters on
  devices that differ in type or in index), the constructor raises the \<^verbatim>\<open>RuntimeError\<close>
  saying that only single-device modules are supported, with or without a \<^verbatim>\<open>device_id\<close>.
\<close>

theorem fsdp_multi_device_refused:
  assumes "d1 \<in> set m" and "d2 \<in> set m" and "d1 \<noteq> d2"
  shows "FSDP p m device_id = Inl (Single_device_only (remdups m))
       \<and> class_of (Single_device_only (remdups m)) = RuntimeError_class"
proof -
  have "{d1, d2} \<subseteq> set m" using assms by simp
  then have "card {d1, d2} \<le> card (set m)" by (intro card_mono) simp_all
  with assms have "1 < length (remdups m)" by (simp add: length_remdups_card_conv)
  then show ?thesis by (simp add: FSDP_def Let_def)
qed

theorem fsdp_multi_device_refused_witness:
  "CUDA 1 \<in> set (MyModule worker1) \<and> CPU \<in> set (MyModule worker1) \<and> CUDA 1 \<noteq> CPU
   \<and> FSDP worker1 (MyModule worker1) None = Inl (Single_device_only [CUDA 1, CPU])"
proof -
  have h1: "CUDA 1 \<in> set (MyModule worker1)" and h2: "CPU \<in> set (MyModule worker1)"
    and h3: "CUDA 1 \<noteq> CPU"
    by (simp_all add: MyModule_def module_cuda_def worker1_def)
  have r: "remdups (MyModule worker1) = [CUDA 1, CPU]"
    by (simp add: MyModule_def module_cuda_def worker1_def)
  from fsdp_multi_device_refused [OF h1 h2 h3, of worker1 None] h1 h2 r show ?thesis
    by simp
qed

subsection \<open>A module without parameters\<close>

text \<open>
  C8, as the claim states it, fails: on the worker of rank 1, whose current device is
  \<open>CUDA 1\<close>, wrapping a module without parameters with \<^verbatim>\<open>device_id=0\<close> raises the
  \<^verbatim>\<open>AssertionError\<close> on inconsistent devices, which is what the last block of
  \<^verbatim>\<open>test_no_params\<close> expects.
\<close>

theorem fsdp_no_params_counterexample:
  "FSDP \<lparr>rank = 1, current_device = 1\<rparr> [] (Some (Index 0))
     = Inl (Inconsistent_compute_device (CUDA 1) (CUDA 0))"
  by (simp add: FSDP_def)

text \<open>
  C8, amended. Wrapping a module without parameters moves nothing and takes the current
  device as compute device. It succeeds without a \<^verbatim>\<open>device_id\<close>, and with a
  \<^verbatim>\<open>device_id\<close> that names the current device; with a \<^verbatim>\<open>device_id\<close> that names another
  device it raises the \<^verbatim>\<open>AssertionError\<close> on the inconsistency of the two devices.
\<close>

theorem fsdp_no_params:
  "FSDP p [] device_id =
     (case device_id of
        None \<Rightarrow> Inr \<lparr>fsdp_parameters = [], compute_device = CUDA (current_device p),
                    movements = [], warnings = []\<rparr>
      | Some d \<Rightarrow>
          if device_of p d = CUDA (current_device p)
          then Inr \<lparr>fsdp_parameters = [], compute_device = CUDA (current_device p),
                    movements = [], warnings = index_warning d\<rparr>
          else Inl (Inconsistent_compute_device (CUDA (current_device p)) (device_of p d)))"
  by (auto simp: FSDP_def Let_def split: option.splits)

subsection \<open>A module on host memory\<close>

text \<open>
  When a module whose parameters are all on host memory is wrapped without a
  \<^verbatim>\<open>device_id\<close>, the construction succeeds and every parameter is on host memory
  afterwards, although the module went to the current accelerator device and back in
  between; \<^verbatim>\<open>cuda()\<close> then moves each of the parameters to the current accelerator device.
  This is placement only: whether the wrapper can then run a forward and backward pass is
  not a question of this model.
\<close>

lemma host_module_stays_on_host:
  assumes "list_all (\<lambda>d. d = CPU) m"
  shows "\<exists>f. FSDP p m None = Inr f
           \<and> fsdp_parameters f = m
           \<and> list_all (\<lambda>d. d = CPU) (fsdp_parameters f)
           \<and> movements f = (if m = [] then [] else [CUDA (current_device p), CPU])
           \<and> fsdp_parameters (fsdp_cuda p f) = map (\<lambda>_. CUDA (current_device p)) m"
  using assms remdups_all_same [of CPU m]
  by (auto simp: FSDP_def Let_def fsdp_cuda_def module_cuda_def)

lemma host_module_stays_on_host_example:
  "\<exists>f. FSDP worker1 [CPU, CPU] None = Inr f
       \<and> fsdp_parameters f = [CPU, CPU]
       \<and> movements f = [CUDA 1, CPU]
       \<and> fsdp_parameters (fsdp_cuda worker1 f) = [CUDA 1, CUDA 1]"
  using host_module_stays_on_host [of "[CPU, CPU]" worker1]
  by (auto simp: fsdp_cuda_def module_cuda_def worker1_def)

end
